theory Spec2Isabelle
  imports Complex_Main
begin

section \<open>cogent3.util.parallel: the bounded parallel map\<close>

subsection \<open>Exceptions and the process environment\<close>

text \<open>
  The exceptions that \<^verbatim>\<open>parallel.py\<close> and the pool executors it calls can raise,
  and the one a data store raises on a write that its mode forbids. \<open>Raised\<close> stands for
  any exception raised by the mapped function itself.
\<close>

datatype exn =
    AssertionError
  | RuntimeError
  | TypeError
  | ValueError
  | ZeroDivisionError
  | IOError
  | Raised string

text \<open>
  What the module reads from its process: the module-level flag \<^verbatim>\<open>USING_MPI\<close>
  (lines 27-45; it is true exactly when \<^verbatim>\<open>MPI is not None\<close>),
  \<^verbatim>\<open>COMM.Get_attr(MPI.UNIVERSE_SIZE)\<close>, \<^verbatim>\<open>multiprocessing.cpu_count()\<close>,
  \<^verbatim>\<open>multiprocessing.current_process().name\<close> and \<^verbatim>\<open>sys.argv[0]\<close>. The universe
  size and the number of cores are taken to be known integers.
\<close>

record env =
  USING_MPI :: bool
  UNIVERSE_SIZE :: int
  cpu_count :: int
  current_process_name :: string
  sys_argv0 :: string

subsection \<open>Python helpers\<close>

text \<open>\<^verbatim>\<open>s[:-2]\<close>: all but the last two characters, the empty string when there are fewer.\<close>

definition drop_last2 :: "string \<Rightarrow> string" where
  "drop_last2 s = take (length s - 2) s"

text \<open>\<^verbatim>\<open>s.split(sep)[-1]\<close>: what follows the last separator (all of \<open>s\<close> without one).\<close>

definition split_last :: "char \<Rightarrow> string \<Rightarrow> string" where
  "split_last sep s = rev (takeWhile (\<lambda>c. c \<noteq> sep) (rev s))"

text \<open>\<^verbatim>\<open>str.lower()\<close> on ASCII text.\<close>

definition lower_char :: "char \<Rightarrow> char" where
  "lower_char c =
     (let n = (of_char c :: nat) in if 65 \<le> n \<and> n \<le> 90 then char_of (n + 32) else c)"

definition lower :: "string \<Rightarrow> string" where
  "lower s = map lower_char s"


fun or_default :: "int option \<Rightarrow> int \<Rightarrow> int" where
  "or_default None d = d"
| "or_default (Some n) d = (if n = 0 then d else n)"

text \<open>The same where computing the default can raise.\<close>

fun or_computed :: "int option \<Rightarrow> exn + int \<Rightarrow> exn + int" where
  "or_computed None d = d"
| "or_computed (Some n) d = (if n = 0 then d else Inr n)"

subsection \<open>is\_master\_process (lines 60-80)\<close>

definition is_master_process :: "env \<Rightarrow> bool" where
  "is_master_process e =
     (if USING_MPI e then
        (let process_cmd = sys_argv0 e;
             process_file = split_last (CHR ''/'') process_cmd
         in if process_file = ''server.py'' then False else True)
      else
        (let process_name = current_process_name e
         in if drop_last2 process_name \<in> set [''ForkProcess'', ''SpawnProcess'']
            then False else True))"

subsection \<open>set\_default\_chunksize (lines 91-95)\<close>

text \<open>
  \<^verbatim>\<open>divmod\<close> on Python ints is floor division with the remainder taking the sign
  of the divisor, as \<open>div\<close> and \<open>mod\<close> on \<open>int\<close> are; a zero divisor raises.
\<close>

definition set_default_chunksize :: "'a list \<Rightarrow> int \<Rightarrow> exn + int" where
  "set_default_chunksize s max_workers =
     (if max_workers * 4 = 0 then Inl ZeroDivisionError
      else
        (let chunksize = int (length s) div (max_workers * 4);
             remainder = int (length s) mod (max_workers * 4)
         in Inr (if remainder \<noteq> 0 then chunksize + 1 else chunksize)))"

subsection \<open>The pool executors\<close>

text \<open>
  Modelled from the spec: the pool executors (\<^verbatim>\<open>concurrent.futures.ProcessPoolExecutor\<close>
  and \<^verbatim>\<open>mpi4py.futures.MPIPoolExecutor\<close>) are libraries outside the repository; the
  spec describes their \<^verbatim>\<open>map\<close> as a map over inputs with bounded concurrency whose
  results are reassembled in input order, not streamed in completion order. The model
  follows the library's steps: the constructor rejects a worker count below one; \<^verbatim>\<open>map\<close>
  rejects a chunk size below one, cuts the inputs into consecutive chunks, submits one task
  per chunk (a task applies the function to the chunk's inputs from left to right and an
  exception of the function ends it), lets the workers complete the tasks in any order,
  and hands the results out in order of submission, waiting for each task in turn and
  raising its exception, if it has one, in the caller. Values are taken to survive the
  transport between processes unchanged.
\<close>

datatype backend = MPIPoolExecutor | ProcessPoolExecutor

record executor =
  backend :: backend
  pool_workers :: int

definition new_executor :: "backend \<Rightarrow> int \<Rightarrow> exn + executor" where
  "new_executor b max_workers =
     (if max_workers \<le> 0 then Inl ValueError
      else Inr \<lparr>backend = b, pool_workers = max_workers\<rparr>)"

function get_chunks :: "nat \<Rightarrow> 'a list \<Rightarrow> 'a list list" where
  "get_chunks chunksize xs =
     (if chunksize = 0 \<or> xs = [] then []
      else take chunksize xs # get_chunks chunksize (drop chunksize xs))"
  by pat_completeness auto
termination
  by (relation "measure (\<lambda>(chunksize, xs). length xs)") auto

declare get_chunks.simps [simp del]

fun process_chunk :: "('a \<Rightarrow> exn + 'b) \<Rightarrow> 'a list \<Rightarrow> exn + 'b list" where
  "process_chunk fn [] = Inr []"
| "process_chunk fn (x # xs) =
     (case fn x of
        Inl e \<Rightarrow> Inl e
      | Inr y \<Rightarrow> (case process_chunk fn xs of Inl e \<Rightarrow> Inl e | Inr ys \<Rightarrow> Inr (y # ys)))"

text \<open>
  One future per submitted task, in order of submission: \<open>None\<close> while the task is
  pending, then its result. A schedule lists the tasks in the order in which the workers
  complete them; an index that names no task changes nothing. \<open>completes_all\<close> says
  that each of the first \<open>n\<close> tasks is completed at some point of the schedule.
\<close>

type_synonym 'b futures = "(exn + 'b list) option list"

definition submit_all :: "'a list list \<Rightarrow> 'b futures" where
  "submit_all chunks = replicate (length chunks) None"

definition complete_task ::
  "('a \<Rightarrow> exn + 'b) \<Rightarrow> 'a list list \<Rightarrow> nat \<Rightarrow> 'b futures \<Rightarrow> 'b futures" where
  "complete_task fn chunks i fs =
     (if i < length chunks then fs[i := Some (process_chunk fn (chunks ! i))] else fs)"


definition run_workers :: "('a \<Rightarrow> exn + 'b) \<Rightarrow> 'a list list \<Rightarrow> nat list \<Rightarrow> 'b futures" where
  "run_workers fn chunks schedule = fold (complete_task fn chunks) schedule (submit_all chunks)"

text \<open>
  What a generator does, as seen by its consumer: the values it yields, and then it is
  exhausted (\<open>Done\<close>), raises (\<open>Raise\<close>) or never resumes (\<open>Hang\<close>, here a wait for a
  task that no worker completes).
\<close>

datatype 'b outcome = Done "'b list" | Raise "'b list" exn | Hang "'b list"

fun yield_from :: "'b list \<Rightarrow> 'b outcome \<Rightarrow> 'b outcome" where
  "yield_from ys (Done zs) = Done (ys @ zs)"
| "yield_from ys (Raise zs e) = Raise (ys @ zs) e"
| "yield_from ys (Hang zs) = Hang (ys @ zs)"

fun result_iterator :: "'b futures \<Rightarrow> 'b outcome" where
  "result_iterator [] = Done []"
| "result_iterator (None # fs) = Hang []"
| "result_iterator (Some (Inl e) # fs) = Raise [] e"
| "result_iterator (Some (Inr ys) # fs) = yield_from ys (result_iterator fs)"

definition executor_map ::
  "('a \<Rightarrow> exn + 'b) \<Rightarrow> 'a list \<Rightarrow> int \<Rightarrow> nat list \<Rightarrow> 'b outcome" where
  "executor_map fn s chunksize schedule =
     (if chunksize < 1 then Raise [] ValueError
      else result_iterator (run_workers fn (get_chunks (nat chunksize) s) schedule))"

subsection \<open>imap (lines 98-163) and map (lines 166-168)\<close>

text \<open>
  Lines 123-157: the checks and the defaults, up to the arguments given to the executor.
  \<^verbatim>\<open>warnings.warn(UserWarning, msg=err_msg)\<close> on line 140 passes a keyword that
  \<^verbatim>\<open>warnings.warn\<close> does not have, which is a TypeError. Assertions are taken to be
  enabled: a failing \<^verbatim>\<open>assert\<close> raises AssertionError.
\<close>

definition imap_args ::
  "env \<Rightarrow> 'a list \<Rightarrow> int option \<Rightarrow> bool \<Rightarrow> string \<Rightarrow> int option
     \<Rightarrow> exn + (backend \<times> int \<times> int)" where
  "imap_args e s max_workers use_mpi if_serial chunksize =
     (let if_serial = lower if_serial in
      if if_serial \<notin> set [''ignore'', ''raise'', ''warn''] then Inl AssertionError
      else if use_mpi then
        (if \<not> USING_MPI e then Inl RuntimeError
         else if UNIVERSE_SIZE e = 1 \<and> if_serial = ''raise'' then Inl RuntimeError
         else if UNIVERSE_SIZE e = 1 \<and> if_serial = ''warn'' then Inl TypeError
         else
           (let max_workers = or_default max_workers (UNIVERSE_SIZE e - 1)
            in case or_computed chunksize (set_default_chunksize s max_workers) of
                 Inl err \<Rightarrow> Inl err
               | Inr chunksize \<Rightarrow> Inr (MPIPoolExecutor, max_workers, chunksize)))
      else
        (let max_workers = or_default max_workers (cpu_count e - 1)
         in if \<not> max_workers < cpu_count e then Inl AssertionError
            else case or_computed chunksize (set_default_chunksize s max_workers) of
                   Inl err \<Rightarrow> Inl err
                 | Inr chunksize \<Rightarrow> Inr (ProcessPoolExecutor, max_workers, chunksize)))"

text \<open>Lines 148 and 161: the executor that the call creates.\<close>

definition imap_executor ::
  "env \<Rightarrow> 'a list \<Rightarrow> int option \<Rightarrow> bool \<Rightarrow> string \<Rightarrow> int option \<Rightarrow> exn + executor" where
  "imap_executor e s max_workers use_mpi if_serial chunksize =
     (case imap_args e s max_workers use_mpi if_serial chunksize of
        Inl err \<Rightarrow> Inl err
      | Inr (b, workers, chunksize) \<Rightarrow> new_executor b workers)"

text \<open>
  The generator: nothing is yielded before the checks have passed and the executor
  exists; then it yields what the executor's \<^verbatim>\<open>map\<close> yields. The wrapper of line
  159 (\<^verbatim>\<open>PicklableAndCallable\<close>) calls the function it wraps and changes no result.
\<close>

definition imap ::
  "env \<Rightarrow> ('a \<Rightarrow> exn + 'b) \<Rightarrow> 'a list \<Rightarrow> int option \<Rightarrow> bool \<Rightarrow> string \<Rightarrow> int option
     \<Rightarrow> nat list \<Rightarrow> 'b outcome" where
  "imap e f s max_workers use_mpi if_serial chunksize schedule =
     (case imap_args e s max_workers use_mpi if_serial chunksize of
        Inl err \<Rightarrow> Raise [] err
      | Inr (b, workers, chunksize) \<Rightarrow>
          (case new_executor b workers of
             Inl err \<Rightarrow> Raise [] err
           | Inr executor \<Rightarrow> executor_map f s chunksize schedule))"



subsection \<open>Example processes and mapped functions\<close>

text \<open>
  A main process on four cores without MPI, and the main process of an MPI run with a
  universe of eight.
\<close>

definition quad_core :: env where
  "quad_core = \<lparr>USING_MPI = False, UNIVERSE_SIZE = 1, cpu_count = 4,
                 current_process_name = ''MainProcess'', sys_argv0 = ''script.py''\<rparr>"



definition hundred_over :: "int \<Rightarrow> exn + int" where
  "hundred_over x = (if x = 0 then Inl ZeroDivisionError else Inr (100 div x))"


section \<open>cogent3.app: failure markers, data stores and io apps\<close>

text \<open>
  The modules \<^verbatim>\<open>cogent3.app.composable\<close>, \<^verbatim>\<open>cogent3.app.io_new\<close>,
  \<^verbatim>\<open>cogent3.app.data_store_new\<close> and \<^verbatim>\<open>cogent3.app.sqlite_data_store\<close> are not
  among the sources; their tests (\<^verbatim>\<open>tests/test_app/test_io_new.py\<close>) are. Every
  definition of this section is written from the spec (sections 3, 4, 6 and 7), with the
  parsers, serialisers and picklers, which the spec leaves to external collaborators,
  as parameters.
\<close>

subsection \<open>Failure markers and values\<close>

text \<open>
  Modelled from the spec: the failure marker (\<^verbatim>\<open>NotCompleted\<close> of
  \<^verbatim>\<open>cogent3.app.composable\<close>), with the attributes of section 3: type, origin, message,
  source when known, and the marker of an upstream stage that caused it.
\<close>

datatype NotCompleted =
  NotCompleted (nc_type: string) (origin: string) (message: string)
    (source: "string option") (caused_by: "NotCompleted option")

text \<open>
  Modelled from the spec: what an app is called with and returns (section 3 and 4.4): a
  loadable reference (a path or the identifier of a data member), in-memory bytes, a
  ready-made in-memory domain object, or a failure marker.
\<close>

datatype 'obj val =
    Identifier string
  | Bytes string
  | Object 'obj
  | Failed NotCompleted

text \<open>
  Modelled from the spec: the error taxonomy of section 7. A domain failure is caught by
  the app and becomes a failure marker; anything else propagates.
\<close>

datatype failure = DomainFailure string | UnexpectedError exn

fun source_of :: "'obj val \<Rightarrow> string option" where
  "source_of (Identifier i) = Some i"
| "source_of v = None"

text \<open>
  Modelled from the spec: calling an app (\<^verbatim>\<open>__call__\<close> of an app of
  \<^verbatim>\<open>cogent3.app.composable\<close>, sections 3 and 7). A failure marker given as input passes
  through unchanged and the app's own work is not run; a domain failure of the app's work
  is returned as a failure marker that names the app as its origin; an unexpected error
  is raised.
\<close>

definition app_call ::
  "string \<Rightarrow> ('obj val \<Rightarrow> failure + 'obj val) \<Rightarrow> 'obj val \<Rightarrow> exn + 'obj val" where
  "app_call name main x =
     (case x of
        Failed nc \<Rightarrow> Inr (Failed nc)
      | _ \<Rightarrow>
          (case main x of
             Inr v \<Rightarrow> Inr v
           | Inl (DomainFailure msg) \<Rightarrow>
               Inr (Failed (NotCompleted ''ERROR'' name msg (source_of x) None))
           | Inl (UnexpectedError err) \<Rightarrow> Inl err))"

subsection \<open>Loader apps and pickle\_it\<close>

text \<open>
  Modelled from the spec: the loader apps of \<^verbatim>\<open>cogent3.app.io_new\<close> (section 4.4). A
  loader takes an identifier, which it resolves to raw content, or in-memory bytes, and
  parses the content into a domain object; an identifier that resolves to nothing, content
  that does not parse and an input that is already an in-memory domain object are domain
  failures. How an identifier is resolved and how each format is parsed are parameters.
\<close>

datatype loader = load_aligned | load_unaligned | load_tabular | load_json | load_db

fun loader_name :: "loader \<Rightarrow> string" where
  "loader_name load_aligned = ''load_aligned''"
| "loader_name load_unaligned = ''load_unaligned''"
| "loader_name load_tabular = ''load_tabular''"
| "loader_name load_json = ''load_json''"
| "loader_name load_db = ''load_db''"

definition parse_content :: "(string \<Rightarrow> string + 'obj) \<Rightarrow> string \<Rightarrow> failure + 'obj val" where
  "parse_content parse raw =
     (case parse raw of Inl msg \<Rightarrow> Inl (DomainFailure msg) | Inr obj \<Rightarrow> Inr (Object obj))"

fun loader_main ::
  "(string \<Rightarrow> string option) \<Rightarrow> (string \<Rightarrow> string + 'obj) \<Rightarrow> 'obj val \<Rightarrow> failure + 'obj val" where
  "loader_main fetch parse (Identifier i) =
     (case fetch i of
        None \<Rightarrow> Inl (DomainFailure ''no such record'')
      | Some raw \<Rightarrow> parse_content parse raw)"
| "loader_main fetch parse (Bytes raw) = parse_content parse raw"
| "loader_main fetch parse (Object obj) = Inl (DomainFailure ''invalid input type'')"
| "loader_main fetch parse (Failed nc) = Inr (Failed nc)"

definition load ::
  "loader \<Rightarrow> (string \<Rightarrow> string option) \<Rightarrow> (string \<Rightarrow> string + 'obj) \<Rightarrow> 'obj val
     \<Rightarrow> exn + 'obj val" where
  "load kind fetch parse x = app_call (loader_name kind) (loader_main fetch parse) x"

text \<open>
  Modelled from the spec: \<^verbatim>\<open>pickle_it\<close> of \<^verbatim>\<open>cogent3.app.io_new\<close> (section 4.3):
  the payload becomes a byte blob, and a payload that the pickler cannot serialise is a
  domain failure. The pickler is a parameter; \<open>None\<close> is its refusal.
\<close>

definition pickle_it_main :: "('obj val \<Rightarrow> string option) \<Rightarrow> 'obj val \<Rightarrow> failure + 'obj val" where
  "pickle_it_main dumps x =
     (case dumps x of
        None \<Rightarrow> Inl (DomainFailure ''cannot pickle'')
      | Some blob \<Rightarrow> Inr (Bytes blob))"

definition pickle_it :: "('obj val \<Rightarrow> string option) \<Rightarrow> 'obj val \<Rightarrow> exn + 'obj val" where
  "pickle_it dumps x = app_call ''pickle_it'' (pickle_it_main dumps) x"

subsection \<open>Data stores\<close>

text \<open>
  Modelled from the spec: the data store (\<^verbatim>\<open>DataStoreDirectory\<close> of
  \<^verbatim>\<open>cogent3.app.data_store_new\<close> and \<^verbatim>\<open>DataStoreSqlite\<close> of
  \<^verbatim>\<open>cogent3.app.sqlite_data_store\<close>; sections 3, 4.1, 4.2 and 6): a mode, a suffix, the
  completed records in order, each an identifier with its content, the not-completed
  records in order, each an identifier with its failure marker, the record type noted on
  the first successful write, and whether this process has written yet.
\<close>

datatype mode = ReadOnly | Write | Overwrite

record data_store =
  mode :: mode
  suffix :: string
  records :: "(string \<times> string) list"
  not_completed :: "(string \<times> NotCompleted) list"
  record_type :: "string option"
  written :: bool

definition open_data_store :: "mode \<Rightarrow> string \<Rightarrow> data_store" where
  "open_data_store m sfx =
     \<lparr>mode = m, suffix = sfx, records = [], not_completed = [], record_type = None,
      written = False\<rparr>"

text \<open>
  Modelled from the spec: the first write of a process in overwrite mode clears all prior
  state of the destination, once (section 3 and 4.1).
\<close>

definition begin_write :: "data_store \<Rightarrow> data_store" where
  "begin_write st =
     (if mode st = Overwrite \<and> \<not> written st
      then st\<lparr>records := [], not_completed := [], record_type := None, written := True\<rparr>
      else st\<lparr>written := True\<rparr>)"

text \<open>
  Modelled from the spec: \<^verbatim>\<open>write\<close> of a data store (section 4.1): the mode must
  permit writing; in write mode, writing an existing identifier again is an error unless
  the content is identical; otherwise the record is created or overwritten.
\<close>

definition write_record :: "data_store \<Rightarrow> string \<Rightarrow> string \<Rightarrow> exn + data_store" where
  "write_record st unique_id content =
     (if mode st = ReadOnly then Inl IOError
      else
        (let st' = begin_write st in
         case map_of (records st') unique_id of
           None \<Rightarrow> Inr (st'\<lparr>records := records st' @ [(unique_id, content)]\<rparr>)
         | Some old \<Rightarrow>
             if mode st' = Write \<and> old \<noteq> content then Inl IOError
             else Inr (st'\<lparr>records := map (\<lambda>(k, v). if k = unique_id then (k, content) else (k, v))
                                          (records st')\<rparr>)))"

text \<open>
  Modelled from the spec: the not-completed log of a data store (section 4.1 and 4.2),
  appended to by a writer that receives a failure marker.
\<close>

definition write_not_completed :: "data_store \<Rightarrow> string \<Rightarrow> NotCompleted \<Rightarrow> exn + data_store" where
  "write_not_completed st unique_id nc =
     (if mode st = ReadOnly then Inl IOError
      else
        (let st' = begin_write st
         in Inr (st'\<lparr>not_completed := not_completed st' @ [(unique_id, nc)]\<rparr>)))"

definition read_record :: "data_store \<Rightarrow> string \<Rightarrow> string option" where
  "read_record st unique_id = map_of (records st) unique_id"

subsection \<open>write\_db\<close>

text \<open>
  Modelled from the spec: \<^verbatim>\<open>write_db\<close> of \<^verbatim>\<open>cogent3.app.io_new\<close> (section 4.5): a
  domain object is serialised and inserted into the records under the identifier, and the
  store notes the record type on its first successful write; a failure marker is appended
  to the not-completed table instead. Both return the data member that was written, with
  the store as it is afterwards. The serialiser, which gives the object's type and its
  blob, is a parameter.
\<close>

definition write_db ::
  "('obj \<Rightarrow> string \<times> string) \<Rightarrow> data_store \<Rightarrow> 'obj val \<Rightarrow> string
     \<Rightarrow> exn + ('obj val \<times> data_store)" where
  "write_db serialise st data identifier =
     (case data of
        Failed nc \<Rightarrow>
          (case write_not_completed st identifier nc of
             Inl err \<Rightarrow> Inl err
           | Inr st' \<Rightarrow> Inr (Identifier identifier, st'))
      | Object obj \<Rightarrow>
          (let (type, blob) = serialise obj in
           case write_record st identifier blob of
             Inl err \<Rightarrow> Inl err
           | Inr st' \<Rightarrow>
               Inr (Identifier identifier,
                    if record_type st' = None then st'\<lparr>record_type := Some type\<rparr> else st'))
      | _ \<Rightarrow>
          Inr (Failed (NotCompleted ''ERROR'' ''write_db'' ''invalid input type''
                         (source_of data) None), st))"

subsection \<open>Tabular data, write\_tabular and load\_tabular\<close>

text \<open>
  Modelled from the spec: tables and labelled count matrices (\<^verbatim>\<open>cogent3.util.table.Table\<close>
  and \<^verbatim>\<open>cogent3.core.profile.MotifCountsArray\<close>, both outside the sources), with
  what the test of the tabular writer reads of them: cells that are integers or text, a
  header with rows, and a matrix with a label for each row and each column.
\<close>

datatype cell = IntCell int | StrCell string

record table =
  header :: "string list"
  rows :: "cell list list"

record motif_counts =
  row_labels :: "cell list"
  col_labels :: "cell list"
  array :: "int list list"

datatype tabular = GenericTable table | CountsArray motif_counts

text \<open>
  Modelled from the spec: the long format of a 2-D matrix (sections 4.5 and 6): the
  columns \<^verbatim>\<open>dim-1\<close>, \<^verbatim>\<open>dim-2\<close> and \<^verbatim>\<open>value\<close>, one row per cell, the rows of
  the matrix one after the other.
\<close>

definition long_format :: "motif_counts \<Rightarrow> table" where
  "long_format m =
     \<lparr>header = [''dim-1'', ''dim-2'', ''value''],
      rows = concat (map (\<lambda>(r, vs). map (\<lambda>(c, v). [r, c, IntCell v]) (zip (col_labels m) vs))
                         (zip (row_labels m) (array m)))\<rparr>"

text \<open>
  Modelled from the spec: delimited text (section 4.4 speaks of delimited text and no
  more). A table is written as its header and its rows, one per line, the cells separated
  by the separator, integers in decimal; it is read back by splitting at line ends and
  separators, a cell that is an integer literal becoming an integer again. A row whose
  number of cells differs from the header's is a failure.
\<close>

definition digit_char :: "nat \<Rightarrow> char" where
  "digit_char d = char_of (48 + d)"

function show_nat :: "nat \<Rightarrow> string" where
  "show_nat n = (if n < 10 then [digit_char n] else show_nat (n div 10) @ [digit_char (n mod 10)])"
  by pat_completeness auto
termination
  by (relation "measure (\<lambda>n. n)") auto

declare show_nat.simps [simp del]

definition show_int :: "int \<Rightarrow> string" where
  "show_int i = (if i < 0 then CHR ''-'' # show_nat (nat (- i)) else show_nat (nat i))"

fun show_cell :: "cell \<Rightarrow> string" where
  "show_cell (IntCell i) = show_int i"
| "show_cell (StrCell s) = s"

fun join :: "string \<Rightarrow> string list \<Rightarrow> string" where
  "join sep [] = []"
| "join sep [w] = w"
| "join sep (w # ws) = w @ sep @ join sep ws"

definition format_table :: "char \<Rightarrow> table \<Rightarrow> string" where
  "format_table sep t =
     concat (map (\<lambda>line. line @ [CHR 0x0A])
               (join [sep] (header t) # map (\<lambda>r. join [sep] (map show_cell r)) (rows t)))"

fun split :: "char \<Rightarrow> string \<Rightarrow> string list" where
  "split sep [] = [[]]"
| "split sep (c # cs) =
     (if c = sep then [] # split sep cs
      else (case split sep cs of w # ws \<Rightarrow> (c # w) # ws | [] \<Rightarrow> [[c]]))"

definition splitlines :: "string \<Rightarrow> string list" where
  "splitlines s = (let ls = split (CHR 0x0A) s in if last ls = [] then butlast ls else ls)"

definition is_digit :: "char \<Rightarrow> bool" where
  "is_digit c = (48 \<le> (of_char c :: nat) \<and> (of_char c :: nat) \<le> 57)"

definition read_nat :: "string \<Rightarrow> nat" where
  "read_nat s = foldl (\<lambda>acc c. 10 * acc + (of_char c - 48)) 0 s"

definition is_int_literal :: "string \<Rightarrow> bool" where
  "is_int_literal s =
     (case s of
        [] \<Rightarrow> False
      | c # cs \<Rightarrow> if c = CHR ''-'' then cs \<noteq> [] \<and> list_all is_digit cs else list_all is_digit s)"

definition read_cell :: "string \<Rightarrow> cell" where
  "read_cell s =
     (if is_int_literal s
      then (case s of c # cs \<Rightarrow> if c = CHR ''-'' then IntCell (- int (read_nat cs))
                                else IntCell (int (read_nat s))
                   | [] \<Rightarrow> StrCell s)
      else StrCell s)"

definition parse_table :: "char \<Rightarrow> string \<Rightarrow> string + tabular" where
  "parse_table sep raw =
     (case splitlines raw of
        [] \<Rightarrow> Inl ''no header''
      | h # ls \<Rightarrow>
          (let hdr = split sep h; rs = map (split sep) ls
           in if list_all (\<lambda>r. length r = length hdr) rs
              then Inr (GenericTable \<lparr>header = hdr, rows = map (map read_cell) rs\<rparr>)
              else Inl ''number of columns does not match the header''))"

text \<open>
  Modelled from the spec: \<^verbatim>\<open>write_tabular\<close> of \<^verbatim>\<open>cogent3.app.io_new\<close> (section
  4.5): a matrix is flattened to long format, a table is written as it is, under the
  identifier with the store's suffix; a failure marker goes to the not-completed log.
  \<^verbatim>\<open>load_tabular\<close> is the loader above with \<open>parse_table\<close> as its parser.
\<close>

definition write_tabular ::
  "char \<Rightarrow> data_store \<Rightarrow> tabular val \<Rightarrow> string \<Rightarrow> exn + (tabular val \<times> data_store)" where
  "write_tabular sep st data identifier =
     (case data of
        Failed nc \<Rightarrow>
          (case write_not_completed st identifier nc of
             Inl err \<Rightarrow> Inl err
           | Inr st' \<Rightarrow> Inr (Identifier identifier, st'))
      | Object obj \<Rightarrow>
          (let t = (case obj of CountsArray m \<Rightarrow> long_format m | GenericTable t \<Rightarrow> t);
               unique_id = identifier @ ''.'' @ suffix st
           in case write_record st unique_id (format_table sep t) of
                Inl err \<Rightarrow> Inl err
              | Inr st' \<Rightarrow> Inr (Identifier unique_id, st'))
      | _ \<Rightarrow>
          Inr (Failed (NotCompleted ''ERROR'' ''write_tabular'' ''invalid input type''
                         (source_of data) None), st))"

text \<open>
  The matrix of \<^verbatim>\<open>test_write_tabular_motif_counts_array\<close> (lines 261-262):
  \<^verbatim>\<open>MotifCountsArray([[2, 4], [3, 5], [4, 8]], "AB")\<close>, rows labelled 0, 1, 2.
\<close>

definition mca :: motif_counts where
  "mca = \<lparr>row_labels = [IntCell 0, IntCell 1, IntCell 2],
          col_labels = [StrCell ''A'', StrCell ''B''],
          array = [[2, 4], [3, 5], [4, 8]]\<rparr>"

text \<open>A pickler that serialises references and bytes as they are and refuses the rest.\<close>

fun text_only :: "string val \<Rightarrow> string option" where
  "text_only (Identifier i) = Some i"
| "text_only (Bytes b) = Some b"
| "text_only v = None"

text \<open>The marker of \<^verbatim>\<open>test_write_read_db_not_completed\<close> (line 458).\<close>

definition traced :: NotCompleted where
  "traced = NotCompleted ''ERROR'' ''test'' ''for tracing'' (Some ''blah'') None"

section \<open>Properties\<close>

subsection \<open>The executor hands results out in input order\<close>













subsection \<open>imap and map against serial application\<close>

text \<open>
  The conditions on the call hold for the default call on a machine with at least two
  cores and a non-empty input: all but one core as workers, and a chunk size of at least
  one.
\<close>

lemma imap_args_default_call:
  assumes "lower if_serial \<in> set [''ignore'', ''raise'', ''warn'']"
    and "2 \<le> cpu_count e" and "s \<noteq> []"
  shows "\<exists>c. imap_args e s None False if_serial None
               = Inr (ProcessPoolExecutor, cpu_count e - 1, c) \<and> 1 \<le> c"
proof -
  define w where "w = cpu_count e - 1"
  define b where "b = w * 4"
  define n where "n = int (length s)"
  have w: "w < cpu_count e" and b: "0 < b" using assms(2) by (simp_all add: w_def b_def)
  have n: "0 < n" using assms(3) by (simp add: n_def)
  have "1 \<le> n div b" if "n mod b = 0"
  proof -
    from that have "n = b * (n div b)" by auto
    with n b have "0 < n div b" by (metis zero_less_mult_pos)
    then show ?thesis by simp
  qed
  moreover have "0 \<le> n div b" using b n by (simp add: pos_imp_zdiv_nonneg_iff)
  ultimately have c: "1 \<le> (if n mod b \<noteq> 0 then n div b + 1 else n div b)" by simp
  have "set_default_chunksize s w = Inr (if n mod b \<noteq> 0 then n div b + 1 else n div b)"
    using b unfolding set_default_chunksize_def Let_def b_def n_def by simp
  then have "imap_args e s None False if_serial None
               = Inr (ProcessPoolExecutor, w, if n mod b \<noteq> 0 then n div b + 1 else n div b)"
    using assms(1) w unfolding imap_args_def Let_def w_def by simp
  with c show ?thesis unfolding w_def by blast
qed







subsection \<open>The worker pool that imap creates\<close>




lemma imap_args_worker_bound:
  assumes "k \<noteq> 0" and "cpu_count e \<le> k"
  shows "imap_args e s (Some k) False if_serial chunksize = Inl AssertionError"
  using assms by (simp add: imap_args_def Let_def)

text \<open>
  C9. For a call with \<open>use_mpi=False\<close> and an explicitly supplied worker count \<open>k\<close>
  (a non-zero integer: zero counts as not supplied): if \<open>k\<close> is at least the number of
  cores, the call fails with AssertionError, no executor is created and nothing is
  yielded, whatever the function, the inputs, the chunk size and the schedule are, so no
  input is processed; an executor is created only if \<open>k\<close> is strictly below the number
  of cores.
\<close>

theorem imap_worker_bound:
  assumes "k \<noteq> 0"
  shows "(cpu_count e \<le> k \<longrightarrow>
            imap e f s (Some k) False if_serial chunksize schedule = Raise [] AssertionError
            \<and> imap_executor e s (Some k) False if_serial chunksize = Inl AssertionError)
       \<and> ((\<exists>ex. imap_executor e s (Some k) False if_serial chunksize = Inr ex)
            \<longrightarrow> k < cpu_count e)"
proof -
  have "imap_args e s (Some k) False if_serial chunksize = Inl AssertionError"
    if "cpu_count e \<le> k"
    using assms that by (rule imap_args_worker_bound)
  then have "cpu_count e \<le> k \<longrightarrow>
            imap e f s (Some k) False if_serial chunksize schedule = Raise [] AssertionError
            \<and> imap_executor e s (Some k) False if_serial chunksize = Inl AssertionError"
    by (simp add: imap_def imap_executor_def)
  then show ?thesis
    by (cases "k < cpu_count e") auto
qed

theorem imap_worker_bound_witness:
  "(4::int) \<noteq> 0 \<and> cpu_count quad_core \<le> 4
   \<and> imap quad_core hundred_over [0, 1] (Some 4) False ''raise'' None [0, 1]
       = Raise [] AssertionError
   \<and> (3::int) \<noteq> 0
   \<and> imap_executor quad_core [0, 1 :: int] (Some 3) False ''raise'' None
       = Inr \<lparr>backend = ProcessPoolExecutor, pool_workers = 3\<rparr>
   \<and> 3 < cpu_count quad_core"
proof -
  have k: "(4::int) \<noteq> 0" "(3::int) \<noteq> 0" by simp_all
  have c: "cpu_count quad_core \<le> 4" by (simp add: quad_core_def)
  have x: "imap_executor quad_core [0, 1 :: int] (Some 3) False ''raise'' None
       = Inr \<lparr>backend = ProcessPoolExecutor, pool_workers = 3\<rparr>"
    by code_simp
  from imap_worker_bound [OF k(1), of quad_core hundred_over "[0, 1]" "''raise''" None "[0, 1]"] c
  have 1: "imap quad_core hundred_over [0, 1] (Some 4) False ''raise'' None [0, 1]
       = Raise [] AssertionError" by blast
  from imap_worker_bound [OF k(2), of quad_core _ "[0, 1 :: int]" "''raise''" None] x
  have 2: "3 < cpu_count quad_core" by blast
  from k c x 1 2 show ?thesis by blast
qed

subsection \<open>The master process test\<close>

text \<open>
  C10. Without MPI, \<open>is_master_process\<close> returns False exactly when the process name
  without its last two characters is \<^verbatim>\<open>ForkProcess\<close> or \<^verbatim>\<open>SpawnProcess\<close>. So for a
  worker named \<^verbatim>\<open>ForkProcess-\<close> or \<^verbatim>\<open>SpawnProcess-\<close> followed by an index, it
  returns False when the index has one character and True (master) when it has two or
  more, or none.
\<close>

theorem is_master_process_names:
  assumes "\<not> USING_MPI e"
  shows "(\<not> is_master_process e \<longleftrightarrow>
            drop_last2 (current_process_name e) = ''ForkProcess''
            \<or> drop_last2 (current_process_name e) = ''SpawnProcess'')
       \<and> (\<forall>idx. current_process_name e = ''ForkProcess-'' @ idx \<longrightarrow>
            (is_master_process e \<longleftrightarrow> length idx \<noteq> 1))
       \<and> (\<forall>idx. current_process_name e = ''SpawnProcess-'' @ idx \<longrightarrow>
            (is_master_process e \<longleftrightarrow> length idx \<noteq> 1))"
proof -
  have 1: "\<not> is_master_process e \<longleftrightarrow>
            drop_last2 (current_process_name e) = ''ForkProcess''
            \<or> drop_last2 (current_process_name e) = ''SpawnProcess''"
    using assms by (simp add: is_master_process_def Let_def)
  have 2: "is_master_process e \<longleftrightarrow> length idx \<noteq> 1"
    if "current_process_name e = ''ForkProcess-'' @ idx" for idx
  proof -
    have "drop_last2 (''ForkProcess-'' @ idx) = ''ForkProcess'' \<longleftrightarrow> length idx = 1"
      by (cases idx rule: rev_cases) (auto simp: drop_last2_def)
    moreover have "drop_last2 (''ForkProcess-'' @ idx) \<noteq> ''SpawnProcess''"
      by (cases idx rule: rev_cases) (auto simp: drop_last2_def)
    ultimately show ?thesis using 1 that by auto
  qed
  have 3: "is_master_process e \<longleftrightarrow> length idx \<noteq> 1"
    if "current_process_name e = ''SpawnProcess-'' @ idx" for idx
  proof -
    have "drop_last2 (''SpawnProcess-'' @ idx) = ''SpawnProcess'' \<longleftrightarrow> length idx = 1"
      by (cases idx rule: rev_cases) (auto simp: drop_last2_def)
    moreover have "drop_last2 (''SpawnProcess-'' @ idx) \<noteq> ''ForkProcess''"
      by (cases idx rule: rev_cases) (auto simp: drop_last2_def)
    ultimately show ?thesis using 1 that by auto
  qed
  from 1 2 3 show ?thesis by blast
qed

theorem is_master_process_names_witness:
  "\<not> USING_MPI (quad_core\<lparr>current_process_name := ''ForkProcess-3''\<rparr>)
   \<and> \<not> is_master_process (quad_core\<lparr>current_process_name := ''ForkProcess-3''\<rparr>)
   \<and> \<not> USING_MPI (quad_core\<lparr>current_process_name := ''ForkProcess-10''\<rparr>)
   \<and> is_master_process (quad_core\<lparr>current_process_name := ''ForkProcess-10''\<rparr>)"
proof -
  let ?w3 = "quad_core\<lparr>current_process_name := ''ForkProcess-3''\<rparr>"
  let ?w10 = "quad_core\<lparr>current_process_name := ''ForkProcess-10''\<rparr>"
  have m: "\<not> USING_MPI ?w3" "\<not> USING_MPI ?w10" by (simp_all add: quad_core_def)
  have n: "current_process_name ?w3 = ''ForkProcess-'' @ ''3''"
    "current_process_name ?w10 = ''ForkProcess-'' @ ''10''" by simp_all
  from is_master_process_names [OF m(1)] n(1)
  have "is_master_process ?w3 \<longleftrightarrow> length ''3'' \<noteq> 1" by blast
  moreover from is_master_process_names [OF m(2)] n(2)
  have "is_master_process ?w10 \<longleftrightarrow> length ''10'' \<noteq> 1" by blast
  ultimately show ?thesis using m by simp
qed

subsection \<open>The default chunk size\<close>

lemma ceiling_divide_int:
  fixes a b :: int
  assumes "0 < b"
  shows "\<lceil>real_of_int a / real_of_int b\<rceil> = (if a mod b \<noteq> 0 then a div b + 1 else a div b)"
proof (cases "a mod b = 0")
  case True
  then have "a = (a div b) * b" by auto
  then have "real_of_int a / real_of_int b = real_of_int (a div b)"
    using assms by (metis True real_of_int_div dvd_eq_mod_eq_0)
  then show ?thesis using True by simp
next
  case False
  have "\<lceil>real_of_int a / real_of_int b\<rceil> = - \<lfloor>real_of_int (- a) / real_of_int b\<rfloor>"
    by (simp add: ceiling_def)
  also have "\<dots> = - ((- a) div b)"
    by (simp only: floor_divide_of_int_eq)
  also have "\<dots> = a div b + 1"
    using False assms by (simp add: zdiv_zminus1_eq_if)
  finally show ?thesis using False by simp
qed

text \<open>
  C3. For every finite sequence \<open>s\<close> and every positive \<open>max_workers\<close>,
  \<open>set_default_chunksize s max_workers\<close> returns (it does not raise) exactly the
  ceiling of \<open>len(s) / (max_workers * 4)\<close>, computed on integers: it is also
  \<open>(len(s) + max_workers * 4 - 1) div (max_workers * 4)\<close>.
\<close>

theorem set_default_chunksize_ceiling:
  assumes "0 < max_workers"
  shows "set_default_chunksize s max_workers
           = Inr \<lceil>real (length s) / real_of_int (max_workers * 4)\<rceil>
       \<and> set_default_chunksize s max_workers
           = Inr ((int (length s) + max_workers * 4 - 1) div (max_workers * 4))"
proof -
  let ?b = "max_workers * 4"
  let ?a = "int (length s)"
  have b: "0 < ?b" using assms by simp
  have c: "\<lceil>real_of_int ?a / real_of_int ?b\<rceil> = (if ?a mod ?b \<noteq> 0 then ?a div ?b + 1 else ?a div ?b)"
    using b by (rule ceiling_divide_int)
  have first: "set_default_chunksize s max_workers
           = Inr \<lceil>real (length s) / real_of_int (max_workers * 4)\<rceil>"
    using b c by (simp add: set_default_chunksize_def Let_def)
  have d: "(?a + ?b - 1) div ?b = (if ?a mod ?b \<noteq> 0 then ?a div ?b + 1 else ?a div ?b)"
  proof (cases "?a mod ?b = 0")
    case True
    then obtain k where k: "?a = ?b * k" by auto
    have "(?b * k + (?b - 1)) div ?b = k + (?b - 1) div ?b"
      using b by (metis add.commute div_mult_self2 less_irrefl)
    moreover have "(?b - 1) div ?b = 0" using b by simp
    ultimately have "(?a + ?b - 1) div ?b = k" using k by (simp add: algebra_simps)
    moreover have "?a div ?b = k" using k b by simp
    ultimately show ?thesis using True by simp
  next
    case False
    define r where "r = ?a mod ?b"
    define q where "q = ?a div ?b"
    have "0 \<le> r" "r < ?b"
      unfolding r_def using b by (rule pos_mod_sign, rule pos_mod_bound)
    then have r: "0 < r" "r < ?b" using False by (auto simp: r_def)
    have a: "?a = ?b * q + r" by (simp add: q_def r_def)
    have e: "?a + ?b - 1 = ?b * (q + 1) + (r - 1)" using a by (simp add: algebra_simps)
    have "(?a + ?b - 1) div ?b = (?b * (q + 1) + (r - 1)) div ?b" by (simp only: e)
    also have "\<dots> = q + 1"
      using r b by simp
    finally show ?thesis using False by (simp add: q_def)
  qed
  have second: "set_default_chunksize s max_workers
           = Inr ((int (length s) + max_workers * 4 - 1) div (max_workers * 4))"
    using b d by (simp add: set_default_chunksize_def Let_def)
  from first second show ?thesis by (rule conjI)
qed

theorem set_default_chunksize_ceiling_witness:
  "(0::int) < 2
   \<and> set_default_chunksize ''abcdefghi'' 2
         = Inr \<lceil>real (length ''abcdefghi'') / real_of_int (2 * 4)\<rceil>
   \<and> set_default_chunksize ''abcdefghi'' 2 = Inr 2"
  using set_default_chunksize_ceiling [of 2 "''abcdefghi''"] by simp

subsection \<open>Apps return failure markers\<close>

text \<open>
  C6. Every loader app (aligned, unaligned, tabular, JSON, database), whatever it reads
  from and whatever its parser, applied to an input that is already an in-memory domain
  object, returns a failure marker that names the loader as its origin, and raises
  nothing; and \<open>pickle_it\<close> applied to a payload that its pickler cannot serialise returns
  a failure marker and raises nothing.
\<close>

theorem loaders_and_pickle_it_return_failure_markers:
  "load kind fetch parse (Object obj)
     = Inr (Failed (NotCompleted ''ERROR'' (loader_name kind) ''invalid input type'' None None))
   \<and> (dumps x = None \<longrightarrow> (\<exists>nc. pickle_it dumps x = Inr (Failed nc)))"
  by (cases x) (simp_all add: load_def pickle_it_def pickle_it_main_def app_call_def)

theorem loaders_and_pickle_it_return_failure_markers_witness:
  "load load_aligned Map.empty Inr (Object ''alignment'')
     = Inr (Failed (NotCompleted ''ERROR'' ''load_aligned'' ''invalid input type'' None None))
   \<and> text_only (Object ''foo'') = None
   \<and> pickle_it text_only (Object ''foo'')
     = Inr (Failed (NotCompleted ''ERROR'' ''pickle_it'' ''cannot pickle'' None None))"
proof -
  have n: "text_only (Object ''foo'') = None" by simp
  from loaders_and_pickle_it_return_failure_markers
         [of load_aligned Map.empty Inr "''alignment''" text_only "Object ''foo''"] n
  have "load load_aligned Map.empty Inr (Object ''alignment'')
     = Inr (Failed (NotCompleted ''ERROR'' ''load_aligned'' ''invalid input type'' None None))"
    and "\<exists>nc. pickle_it text_only (Object ''foo'') = Inr (Failed nc)"
    by simp_all
  moreover have "pickle_it text_only (Object ''foo'')
     = Inr (Failed (NotCompleted ''ERROR'' ''pickle_it'' ''cannot pickle'' None None))"
    by (simp add: pickle_it_def pickle_it_main_def app_call_def)
  ultimately show ?thesis using n by simp
qed


subsection \<open>The tabular writer and loader\<close>

text \<open>The long format lists the cells row by row: row \<open>i\<close>, column \<open>j\<close> at place \<open>i * columns + j\<close>.\<close>

lemma zip_nth_upt:
  "length xs = length ys \<Longrightarrow> zip xs ys = map (\<lambda>i. (xs ! i, ys ! i)) [0..<length ys]"
  by (rule nth_equalityI) simp_all

lemma long_format_row_major:
  assumes "length (row_labels m) = length (array m)"
    and "\<forall>vs\<in>set (array m). length vs = length (col_labels m)"
  shows "rows (long_format m) =
           concat (map (\<lambda>i. map (\<lambda>j. [row_labels m ! i, col_labels m ! j, IntCell (array m ! i ! j)])
                                [0..<length (col_labels m)])
                       [0..<length (array m)])"
proof -
  have inner: "map (\<lambda>(c, v). [r, c, IntCell v]) (zip (col_labels m) (array m ! i))
          = map (\<lambda>j. [r, col_labels m ! j, IntCell (array m ! i ! j)]) [0..<length (col_labels m)]"
    if "i < length (array m)" for i r
  proof -
    have "length (col_labels m) = length (array m ! i)"
      using assms(2) that by simp
    then show ?thesis by (simp add: zip_nth_upt)
  qed
  have "rows (long_format m) =
          concat (map (\<lambda>i. map (\<lambda>(c, v). [row_labels m ! i, c, IntCell v])
                               (zip (col_labels m) (array m ! i)))
                      [0..<length (array m)])"
    by (simp add: long_format_def zip_nth_upt [OF assms(1)] comp_def)
  also have "\<dots> = concat (map (\<lambda>i. map (\<lambda>j. [row_labels m ! i, col_labels m ! j, IntCell (array m ! i ! j)])
                                [0..<length (col_labels m)])
                       [0..<length (array m)])"
    by (rule arg_cong [where f = concat], rule map_cong) (simp_all add: inner)
  finally show ?thesis .
qed

text \<open>
  C7. Writing the 3x2 matrix \<open>[[2,4],[3,5],[4,8]]\<close> with row labels 0, 1, 2 and column
  labels A, B with the tabular writer (tab-separated, into an empty store opened for
  writing with suffix tsv) and loading the written member back gives the table with the
  columns \<^verbatim>\<open>dim-1\<close>, \<^verbatim>\<open>dim-2\<close>, \<^verbatim>\<open>value\<close> and exactly the six rows (0,A,2),
  (0,B,4), (1,A,3), (1,B,5), (2,A,4), (2,B,8), in this order.
\<close>

theorem write_tabular_motif_counts_array:
  "(case write_tabular (CHR 0x09) (open_data_store Write ''tsv'') (Object (CountsArray mca))
           ''delme'' of
      Inl err \<Rightarrow> Inl err
    | Inr (m, st) \<Rightarrow> load load_tabular (read_record st) (parse_table (CHR 0x09)) m)
   = Inr (Object (GenericTable
       \<lparr>header = [''dim-1'', ''dim-2'', ''value''],
        rows = [[IntCell 0, StrCell ''A'', IntCell 2],
                [IntCell 0, StrCell ''B'', IntCell 4],
                [IntCell 1, StrCell ''A'', IntCell 3],
                [IntCell 1, StrCell ''B'', IntCell 5],
                [IntCell 2, StrCell ''A'', IntCell 4],
                [IntCell 2, StrCell ''B'', IntCell 8]]\<rparr>))"
  by code_simp

subsection \<open>write\_db and the not-completed table\<close>

text \<open>
  C8. Given a failure marker, \<open>write_db\<close> on a store opened for writing raises nothing
  and returns the member it wrote; it appends the marker, under the identifier, to the
  not-completed table and inserts nothing into the records (both taken after the clearing
  that the first write in overwrite mode does). So on a store that was empty, the
  not-completed table then has exactly one entry and the records have none.
\<close>

theorem write_db_not_completed:
  assumes "mode st \<noteq> ReadOnly"
  shows "\<exists>st'. write_db serialise st (Failed nc) identifier = Inr (Identifier identifier, st')
           \<and> not_completed st' = not_completed (begin_write st) @ [(identifier, nc)]
           \<and> records st' = records (begin_write st)
           \<and> (records st = [] \<and> not_completed st = [] \<longrightarrow>
                length (not_completed st') = 1 \<and> length (records st') = 0)"
  using assms
  by (simp add: write_db_def write_not_completed_def begin_write_def Let_def)

theorem write_db_not_completed_witness:
  "mode (open_data_store Overwrite ''sqlitedb'') \<noteq> ReadOnly
   \<and> records (open_data_store Overwrite ''sqlitedb'') = []
   \<and> not_completed (open_data_store Overwrite ''sqlitedb'') = []
   \<and> (\<exists>st'. write_db (\<lambda>obj :: string. (''str'', obj)) (open_data_store Overwrite ''sqlitedb'')
               (Failed traced) ''blah'' = Inr (Identifier ''blah'', st')
             \<and> length (not_completed st') = 1 \<and> length (records st') = 0)"
proof -
  let ?st = "open_data_store Overwrite ''sqlitedb''"
  have m: "mode ?st \<noteq> ReadOnly" and e: "records ?st = []" "not_completed ?st = []"
    by (simp_all add: open_data_store_def)
  from write_db_not_completed [OF m, of "\<lambda>obj :: string. (''str'', obj)" traced "''blah''"] e
  have "\<exists>st'. write_db (\<lambda>obj :: string. (''str'', obj)) ?st (Failed traced) ''blah''
                 = Inr (Identifier ''blah'', st')
             \<and> length (not_completed st') = 1 \<and> length (records st') = 0"
    by blast
  with m e show ?thesis by blast
qed

end
